theory Spec2Isabelle
  imports Main "HOL-Library.Word" "HOL-Library.Signed_Division"
begin

section \<open>The runtime value type \<open>any\<close> of the PureScript C++ backend\<close>

text \<open>
  The development embeds \<^verbatim>\<open>pcc/runtime/purescript.hh\<close> (class \<^verbatim>\<open>any\<close>: the tag, the
  union, the constructors, copy, move and assignment, \<^verbatim>\<open>rawPointer\<close>, the \<^verbatim>\<open>cast\<close>
  templates) and \<^verbatim>\<open>purescript.cc\<close> (thunk forcing, invocation, extraction, map lookup, the
  comparison and arithmetic operators).

  Conventions of the embedding:
  \<^item> an address (a code pointer, a raw pointer, a managed handle, an interned symbol) is a
    natural number and \<^verbatim>\<open>nullptr\<close> is \<open>0\<close>;
  \<^item> \<^verbatim>\<open>int\<close> is a 32-bit word read as two's complement, \<^verbatim>\<open>char\<close> an 8-bit word;
  \<^item> \<^verbatim>\<open>double\<close> is a type parameter \<open>'d\<close>: the floating-point operations are fields of the
    runtime record and nothing is assumed about them;
  \<^item> a \<^verbatim>\<open>const char *\<close> is the list of characters stored from the pointer to the end of
    its buffer, the buffer's terminating NUL left out; \<^verbatim>\<open>strcmp\<close> and the
    \<^verbatim>\<open>std::string(const char *)\<close> constructor stop at the first NUL, as in C;
  \<^item> a failed \<^verbatim>\<open>assert\<close> of a build with \<^verbatim>\<open>DEBUG\<close> is the error \<open>ContractViolation\<close>;
    reading a union member that is not the active one, reading storage out of bounds,
    signed overflow and integer division by zero are the error \<open>UndefinedBehaviour\<close>;
  \<^item> every call through a code pointer or a closure object made by the runtime itself
    is appended to a trace, so that a theorem can say which callables an operation
    invoked; a forcing loop that never ends is the value \<open>None\<close>.
\<close>

type_synonym addr = nat
type_synonym symbol_t = addr
type_synonym cstring = string

text \<open>\<^verbatim>\<open>enum class Tag\<close> of the header (\<^verbatim>\<open>any::Type\<close> in \<^verbatim>\<open>purescript.cc\<close>), in its order.\<close>

datatype Tag =
    Thunk | Integer | Double | Character | Boolean | StringLiteral
  | Function | EffFunction | RawPointer | String | Map | Data | Array
  | Closure | EffClosure | Pointer

text \<open>
  A value of class \<^verbatim>\<open>any\<close>: the tag together with the active member of the union.
  A managed handle \<^verbatim>\<open>p\<close> is the address it holds and, for a map or a data tuple, the
  storage found there; a map's storage is its pairs in order, the null-keyed sentinel
  pair included.
\<close>

datatype 'd any =
    VThunk addr
  | VInteger "32 word"
  | VDouble 'd
  | VCharacter "8 word"
  | VBoolean bool
  | VStringLiteral cstring
  | VFunction addr
  | VEffFunction addr
  | VRawPointer addr
  | VString string
  | VMap addr "(symbol_t \<times> 'd any) list"
  | VData addr "'d any list"
  | VArray "'d any list"
  | VClosure addr
  | VEffClosure addr
  | VPointer addr

fun tag :: "'d any \<Rightarrow> Tag" where
  "tag (VThunk _) = Thunk"
| "tag (VInteger _) = Integer"
| "tag (VDouble _) = Double"
| "tag (VCharacter _) = Character"
| "tag (VBoolean _) = Boolean"
| "tag (VStringLiteral _) = StringLiteral"
| "tag (VFunction _) = Function"
| "tag (VEffFunction _) = EffFunction"
| "tag (VRawPointer _) = RawPointer"
| "tag (VString _) = String"
| "tag (VMap _ _) = Map"
| "tag (VData _ _) = Data"
| "tag (VArray _) = Array"
| "tag (VClosure _) = Closure"
| "tag (VEffClosure _) = EffClosure"
| "tag (VPointer _) = Pointer"

datatype error = ContractViolation | UndefinedBehaviour

datatype call =
    CallThunk addr | CallFunction addr | CallEffFunction addr
  | CallClosure addr | CallEffClosure addr

datatype cmp_op = EQ | NE | LT | LE | GT | GE

text \<open>
  What the runtime is compiled and linked with: the \<^verbatim>\<open>DEBUG\<close> switch, the signedness of
  plain \<^verbatim>\<open>char\<close>, the code behind every code pointer and closure object (a thunk returns a
  reference to a value, a function or closure returns a value; each returns the same
  value at every call), and the operations of \<^verbatim>\<open>double\<close>.
\<close>

record 'd runtime =
  DEBUG :: bool
  CHAR_SIGNED :: bool
  thunk_code :: "addr \<Rightarrow> 'd any"
  fn_code :: "addr \<Rightarrow> 'd any \<Rightarrow> 'd any"
  eff_fn_code :: "addr \<Rightarrow> 'd any"
  closure_code :: "addr \<Rightarrow> 'd any \<Rightarrow> 'd any"
  eff_closure_code :: "addr \<Rightarrow> 'd any"
  d_add :: "'d \<Rightarrow> 'd \<Rightarrow> 'd"
  d_sub :: "'d \<Rightarrow> 'd \<Rightarrow> 'd"
  d_mul :: "'d \<Rightarrow> 'd \<Rightarrow> 'd"
  d_div :: "'d \<Rightarrow> 'd \<Rightarrow> 'd"
  d_neg :: "'d \<Rightarrow> 'd"
  d_cmp :: "cmp_op \<Rightarrow> 'd \<Rightarrow> 'd \<Rightarrow> bool"

subsection \<open>Thunk forcing\<close>

text \<open>
  \<^verbatim>\<open>any::unthunkVariant\<close>: while the variant is a thunk, call it and go on with the value
  it returns a reference to.
\<close>

partial_function (option) unthunkVariant ::
  "'d runtime \<Rightarrow> 'd any \<Rightarrow> call list \<Rightarrow> ('d any \<times> call list) option" where
  "unthunkVariant R variant tr =
     (case variant of
        VThunk t \<Rightarrow> unthunkVariant R (thunk_code R t) (tr @ [CallThunk t])
      | _ \<Rightarrow> Some (variant, tr))"

text \<open>
  A thunk chain: \<open>thunk_chain R a ts v\<close> holds when \<open>a\<close> is the thunk \<open>ts ! 0\<close>, every
  thunk of \<open>ts\<close> returns the thunk after it, and the last one returns \<open>v\<close>, which is not
  a thunk. The depth of the chain is \<open>length ts\<close>.
\<close>

fun thunk_chain :: "'d runtime \<Rightarrow> 'd any \<Rightarrow> addr list \<Rightarrow> 'd any \<Rightarrow> bool" where
  "thunk_chain R a [] v = (a = v \<and> tag v \<noteq> Thunk)"
| "thunk_chain R a (t # ts) v = (a = VThunk t \<and> thunk_chain R (thunk_code R t) ts v)"

subsection \<open>Assertions and the union's members\<close>

text \<open>
  The \<^verbatim>\<open>assert\<close> macro: with \<^verbatim>\<open>DEBUG\<close> a false condition aborts; without it the macro
  expands to nothing and the code after it runs.
\<close>

definition assert :: "'d runtime \<Rightarrow> bool \<Rightarrow> error + 'a \<Rightarrow> error + 'a" where
  "assert R cond rest = (if DEBUG R \<and> \<not> cond then Inl ContractViolation else rest)"

definition bind_result :: "error + 'a \<Rightarrow> ('a \<Rightarrow> error + 'b) \<Rightarrow> error + 'b" where
  "bind_result m f = (case m of Inl e \<Rightarrow> Inl e | Inr x \<Rightarrow> f x)"

text \<open>Reading a member of the union: defined when it is the active one.\<close>

definition member_t :: "'d any \<Rightarrow> error + addr" where
  "member_t v = (case v of VThunk t \<Rightarrow> Inr t | _ \<Rightarrow> Inl UndefinedBehaviour)"

definition member_i :: "'d any \<Rightarrow> error + 32 word" where
  "member_i v = (case v of VInteger i \<Rightarrow> Inr i | _ \<Rightarrow> Inl UndefinedBehaviour)"

definition member_d :: "'d any \<Rightarrow> error + 'd" where
  "member_d v = (case v of VDouble d \<Rightarrow> Inr d | _ \<Rightarrow> Inl UndefinedBehaviour)"

definition member_c :: "'d any \<Rightarrow> error + 8 word" where
  "member_c v = (case v of VCharacter c \<Rightarrow> Inr c | _ \<Rightarrow> Inl UndefinedBehaviour)"

definition member_b :: "'d any \<Rightarrow> error + bool" where
  "member_b v = (case v of VBoolean b \<Rightarrow> Inr b | _ \<Rightarrow> Inl UndefinedBehaviour)"

definition member_r :: "'d any \<Rightarrow> error + cstring" where
  "member_r v = (case v of VStringLiteral r \<Rightarrow> Inr r | _ \<Rightarrow> Inl UndefinedBehaviour)"

definition member_f :: "'d any \<Rightarrow> error + addr" where
  "member_f v = (case v of VFunction f \<Rightarrow> Inr f | _ \<Rightarrow> Inl UndefinedBehaviour)"

definition member_e :: "'d any \<Rightarrow> error + addr" where
  "member_e v = (case v of VEffFunction e \<Rightarrow> Inr e | _ \<Rightarrow> Inl UndefinedBehaviour)"

definition member_u :: "'d any \<Rightarrow> error + addr" where
  "member_u v = (case v of VRawPointer u \<Rightarrow> Inr u | _ \<Rightarrow> Inl UndefinedBehaviour)"

definition member_s :: "'d any \<Rightarrow> error + string" where
  "member_s v = (case v of VString s \<Rightarrow> Inr s | _ \<Rightarrow> Inl UndefinedBehaviour)"

definition member_a :: "'d any \<Rightarrow> error + 'd any list" where
  "member_a v = (case v of VArray a \<Rightarrow> Inr a | _ \<Rightarrow> Inl UndefinedBehaviour)"

definition member_l :: "'d any \<Rightarrow> error + addr" where
  "member_l v = (case v of VClosure l \<Rightarrow> Inr l | _ \<Rightarrow> Inl UndefinedBehaviour)"

definition member_k :: "'d any \<Rightarrow> error + addr" where
  "member_k v = (case v of VEffClosure k \<Rightarrow> Inr k | _ \<Rightarrow> Inl UndefinedBehaviour)"

text \<open>
  The member \<^verbatim>\<open>p\<close> is shared by the tags \<^verbatim>\<open>Map\<close>, \<^verbatim>\<open>Data\<close> and \<^verbatim>\<open>Pointer\<close>. A
  \<^verbatim>\<open>void *\<close> taken from it is the address with the storage it points to.
\<close>

datatype 'd storage =
    MapStorage "(symbol_t \<times> 'd any) list"
  | DataStorage "'d any list"
  | BoxedObject

definition member_p :: "'d any \<Rightarrow> error + (addr \<times> 'd storage)" where
  "member_p v =
     (case v of
        VMap p m \<Rightarrow> Inr (p, MapStorage m)
      | VData p xs \<Rightarrow> Inr (p, DataStorage xs)
      | VPointer p \<Rightarrow> Inr (p, BoxedObject)
      | _ \<Rightarrow> Inl UndefinedBehaviour)"

subsection \<open>Constructors\<close>

definition any_int :: "32 word \<Rightarrow> 'd any" where
  "any_int val = VInteger val"

text \<open>\<^verbatim>\<open>any(const long)\<close>: the range assertion, then the narrowing \<^verbatim>\<open>static_cast\<close>.\<close>

definition any_long :: "'d runtime \<Rightarrow> int \<Rightarrow> error + 'd any" where
  "any_long R val =
     assert R (- (2 ^ 31) \<le> val \<and> val \<le> 2 ^ 31 - 1) (Inr (VInteger (word_of_int val)))"

definition any_double :: "'d \<Rightarrow> 'd any" where
  "any_double val = VDouble val"

definition any_char :: "8 word \<Rightarrow> 'd any" where
  "any_char val = VCharacter val"

definition any_bool :: "bool \<Rightarrow> 'd any" where
  "any_bool val = VBoolean val"

definition any_string_literal :: "cstring \<Rightarrow> 'd any" where
  "any_string_literal val = VStringLiteral val"

definition NUL :: char where
  "NUL = CHR 0x00"

text \<open>The characters of a C string: those before the first NUL.\<close>

definition c_chars :: "cstring \<Rightarrow> string" where
  "c_chars p = takeWhile (\<lambda>c. c \<noteq> NUL) p"

text \<open>\<^verbatim>\<open>any(char *)\<close> builds a managed \<^verbatim>\<open>std::string\<close> from the C string.\<close>

definition any_char_ptr :: "cstring \<Rightarrow> 'd any" where
  "any_char_ptr val = VString (c_chars val)"

definition any_string :: "string \<Rightarrow> 'd any" where
  "any_string val = VString val"

text \<open>
  For a map, a data tuple and a closure the address \<open>p\<close> is the one
  \<^verbatim>\<open>make_managed\<close> returns for the new object.
\<close>

definition any_map :: "addr \<Rightarrow> (symbol_t \<times> 'd any) list \<Rightarrow> 'd any" where
  "any_map p val = VMap p val"

definition any_data :: "addr \<Rightarrow> 'd any list \<Rightarrow> 'd any" where
  "any_data p val = VData p val"

definition any_array :: "'d any list \<Rightarrow> 'd any" where
  "any_array val = VArray val"

definition any_fn :: "addr \<Rightarrow> 'd any" where
  "any_fn val = VFunction val"

definition any_closure :: "addr \<Rightarrow> 'd any" where
  "any_closure p = VClosure p"

definition any_eff_fn :: "addr \<Rightarrow> 'd any" where
  "any_eff_fn val = VEffFunction val"

definition any_eff_closure :: "addr \<Rightarrow> 'd any" where
  "any_eff_closure p = VEffClosure p"

definition any_thunk :: "addr \<Rightarrow> 'd any" where
  "any_thunk val = VThunk val"

definition any_pointer :: "addr \<Rightarrow> 'd any" where
  "any_pointer val = VPointer val"

definition any_void_ptr :: "addr \<Rightarrow> 'd any" where
  "any_void_ptr val = VRawPointer val"

definition any_nullptr :: "'d any" where
  "any_nullptr = VRawPointer 0"

subsection \<open>Copy, move and assignment (reference-counted backend)\<close>

text \<open>
  \<^verbatim>\<open>any::assign\<close>: the switch on \<^verbatim>\<open>other.tag\<close> that copies (or moves) the member of that
  tag into this object, whose tag the caller has set to \<^verbatim>\<open>other.tag\<close>. The enumeration
  is closed, so the \<^verbatim>\<open>default\<close> branch is not reached. Reference counts are not
  modelled: \<^verbatim>\<open>destruct\<close> changes no value, and the state a moved-from object is left in
  is not described.
\<close>

fun assign :: "'d any \<Rightarrow> 'd any" where
  "assign (VThunk t) = VThunk t"
| "assign (VInteger i) = VInteger i"
| "assign (VDouble d) = VDouble d"
| "assign (VCharacter c) = VCharacter c"
| "assign (VBoolean b) = VBoolean b"
| "assign (VStringLiteral r) = VStringLiteral r"
| "assign (VFunction f) = VFunction f"
| "assign (VEffFunction e) = VEffFunction e"
| "assign (VRawPointer u) = VRawPointer u"
| "assign (VString s) = VString s"
| "assign (VArray a) = VArray a"
| "assign (VClosure l) = VClosure l"
| "assign (VEffClosure k) = VEffClosure k"
| "assign (VMap p m) = VMap p m"
| "assign (VData p xs) = VData p xs"
| "assign (VPointer p) = VPointer p"

text \<open>
  The four special members take the trace and return it with the new value of the
  object: none of them calls through a code pointer.
\<close>

definition copy_constructor :: "'d any \<Rightarrow> call list \<Rightarrow> 'd any \<times> call list" where
  "copy_constructor other tr = (assign other, tr)"

definition move_constructor :: "'d any \<Rightarrow> call list \<Rightarrow> 'd any \<times> call list" where
  "move_constructor other tr = (assign other, tr)"

definition copy_assignment :: "'d any \<Rightarrow> 'd any \<Rightarrow> call list \<Rightarrow> 'd any \<times> call list" where
  "copy_assignment this rhs tr = (assign rhs, tr)"

definition move_assignment :: "'d any \<Rightarrow> 'd any \<Rightarrow> call list \<Rightarrow> 'd any \<times> call list" where
  "move_assignment this rhs tr = (assign rhs, tr)"

subsection \<open>Extraction\<close>

text \<open>
  The macro \<^verbatim>\<open>RETURN_VALUE(TYPE, ACCESSOR, INDIRECTION)\<close>: force, assert the tag of
  the forced variant, read the member.
\<close>

definition RETURN_VALUE ::
  "'d runtime \<Rightarrow> Tag \<Rightarrow> ('d any \<Rightarrow> error + 'a) \<Rightarrow> 'd any \<Rightarrow> call list
     \<Rightarrow> ((error + 'a) \<times> call list) option" where
  "RETURN_VALUE R ty accessor this tr =
     (case unthunkVariant R this tr of
        None \<Rightarrow> None
      | Some (variant, tr') \<Rightarrow> Some (assert R (tag variant = ty) (accessor variant), tr'))"

definition operator_int ::
  "'d runtime \<Rightarrow> 'd any \<Rightarrow> call list \<Rightarrow> ((error + 32 word) \<times> call list) option" where
  "operator_int R this tr = RETURN_VALUE R Integer member_i this tr"

definition operator_double ::
  "'d runtime \<Rightarrow> 'd any \<Rightarrow> call list \<Rightarrow> ((error + 'd) \<times> call list) option" where
  "operator_double R this tr = RETURN_VALUE R Double member_d this tr"

definition operator_bool ::
  "'d runtime \<Rightarrow> 'd any \<Rightarrow> call list \<Rightarrow> ((error + bool) \<times> call list) option" where
  "operator_bool R this tr = RETURN_VALUE R Boolean member_b this tr"

definition operator_char ::
  "'d runtime \<Rightarrow> 'd any \<Rightarrow> call list \<Rightarrow> ((error + 8 word) \<times> call list) option" where
  "operator_char R this tr = RETURN_VALUE R Character member_c this tr"

text \<open>\<^verbatim>\<open>s->c_str()\<close> points to the buffer of the managed string: all of its characters.\<close>

definition operator_cstring ::
  "'d runtime \<Rightarrow> 'd any \<Rightarrow> call list \<Rightarrow> ((error + cstring) \<times> call list) option" where
  "operator_cstring R this tr =
     (case unthunkVariant R this tr of
        None \<Rightarrow> None
      | Some (variant, tr') \<Rightarrow>
          Some (if tag variant = StringLiteral then member_r variant
                else assert R (tag variant = String) (member_s variant), tr'))"

definition operator_array ::
  "'d runtime \<Rightarrow> 'd any \<Rightarrow> call list \<Rightarrow> ((error + 'd any list) \<times> call list) option" where
  "operator_array R this tr = RETURN_VALUE R Array member_a this tr"

text \<open>
  \<^verbatim>\<open>extractPointer\<close>: its tag parameter exists in a \<^verbatim>\<open>DEBUG\<close> build only, where the
  assertion reads it.
\<close>

definition extractPointer ::
  "'d runtime \<Rightarrow> Tag \<Rightarrow> 'd any \<Rightarrow> call list
     \<Rightarrow> ((error + (addr \<times> 'd storage)) \<times> call list) option" where
  "extractPointer R t this tr = RETURN_VALUE R t member_p this tr"

text \<open>
  \<^verbatim>\<open>rawPointer\<close> (in the header): it forces, asserts on \<^verbatim>\<open>tag\<close>, the tag of this object
  itself, and reads the member of the forced variant.
\<close>

definition rawPointer ::
  "'d runtime \<Rightarrow> 'd any \<Rightarrow> call list \<Rightarrow> ((error + addr) \<times> call list) option" where
  "rawPointer R this tr =
     (case unthunkVariant R this tr of
        None \<Rightarrow> None
      | Some (variant, tr') \<Rightarrow> Some (assert R (tag this = RawPointer) (member_u variant), tr'))"

text \<open>
  The \<^verbatim>\<open>cast\<close> templates for maps and data tuples: \<^verbatim>\<open>extractPointer\<close> with the tag of
  \<^verbatim>\<open>TagHelper\<close>, then the \<^verbatim>\<open>static_cast\<close> of the pointer, which is defined when the
  storage is of that type.
\<close>

definition cast_map ::
  "'d runtime \<Rightarrow> 'd any \<Rightarrow> call list
     \<Rightarrow> ((error + (symbol_t \<times> 'd any) list) \<times> call list) option" where
  "cast_map R a tr =
     (case extractPointer R Map a tr of
        None \<Rightarrow> None
      | Some (r, tr') \<Rightarrow>
          Some (bind_result r (\<lambda>(p, st). case st of MapStorage m \<Rightarrow> Inr m
                                          | _ \<Rightarrow> Inl UndefinedBehaviour), tr'))"

definition cast_data ::
  "'d runtime \<Rightarrow> 'd any \<Rightarrow> call list \<Rightarrow> ((error + 'd any list) \<times> call list) option" where
  "cast_data R a tr =
     (case extractPointer R Data a tr of
        None \<Rightarrow> None
      | Some (r, tr') \<Rightarrow>
          Some (bind_result r (\<lambda>(p, st). case st of DataStorage xs \<Rightarrow> Inr xs
                                          | _ \<Rightarrow> Inl UndefinedBehaviour), tr'))"

subsection \<open>Invocation\<close>

text \<open>\<^verbatim>\<open>any::operator()(const any&)\<close>: the argument is passed on as it is.\<close>

definition operator_call ::
  "'d runtime \<Rightarrow> 'd any \<Rightarrow> 'd any \<Rightarrow> call list \<Rightarrow> ((error + 'd any) \<times> call list) option" where
  "operator_call R this arg tr =
     (case unthunkVariant R this tr of
        None \<Rightarrow> None
      | Some (variant, tr') \<Rightarrow>
          Some (if tag variant = Closure then
                  (case member_l variant of
                     Inl e \<Rightarrow> (Inl e, tr')
                   | Inr l \<Rightarrow> (Inr (closure_code R l arg), tr' @ [CallClosure l]))
                else
                  (case assert R (tag variant = Function) (member_f variant) of
                     Inl e \<Rightarrow> (Inl e, tr')
                   | Inr f \<Rightarrow> (Inr (fn_code R f arg), tr' @ [CallFunction f]))))"

text \<open>\<^verbatim>\<open>any::operator()(const as_thunk)\<close>: one step, no loop.\<close>

definition operator_call_as_thunk ::
  "'d runtime \<Rightarrow> 'd any \<Rightarrow> call list \<Rightarrow> (error + 'd any) \<times> call list" where
  "operator_call_as_thunk R this tr =
     (case assert R (tag this = Thunk) (member_t this) of
        Inl e \<Rightarrow> (Inl e, tr)
      | Inr t \<Rightarrow> (Inr (thunk_code R t), tr @ [CallThunk t]))"

text \<open>\<^verbatim>\<open>any::operator()()\<close>.\<close>

definition operator_call_eff ::
  "'d runtime \<Rightarrow> 'd any \<Rightarrow> call list \<Rightarrow> ((error + 'd any) \<times> call list) option" where
  "operator_call_eff R this tr =
     (case unthunkVariant R this tr of
        None \<Rightarrow> None
      | Some (variant, tr') \<Rightarrow>
          Some (if tag variant = EffClosure then
                  (case member_k variant of
                     Inl e \<Rightarrow> (Inl e, tr')
                   | Inr k \<Rightarrow> (Inr (eff_closure_code R k), tr' @ [CallEffClosure k]))
                else
                  (case assert R (tag variant = EffFunction) (member_e variant) of
                     Inl e \<Rightarrow> (Inl e, tr')
                   | Inr e \<Rightarrow> (Inr (eff_fn_code R e), tr' @ [CallEffFunction e]))))"

subsection \<open>Maps and arrays\<close>

text \<open>\<^verbatim>\<open>static const any invalid_key(nullptr)\<close>.\<close>

definition invalid_key :: "'d any" where
  "invalid_key = any_nullptr"

text \<open>
  The loop of \<^verbatim>\<open>any::operator[](const symbol_t)\<close> from index \<open>i\<close> on, the list being the
  storage from \<^verbatim>\<open>m[i]\<close>: compare the key of \<^verbatim>\<open>m[i]\<close>, then test the key of \<^verbatim>\<open>m[++i]\<close>
  against \<^verbatim>\<open>nullptr\<close>. A read behind the storage is undefined. After the loop comes
  \<^verbatim>\<open>assert(false && "map key not found")\<close> and \<^verbatim>\<open>return invalid_key\<close>.
\<close>

fun index_loop :: "'d runtime \<Rightarrow> (symbol_t \<times> 'd any) list \<Rightarrow> symbol_t \<Rightarrow> error + 'd any" where
  "index_loop R [] key = Inl UndefinedBehaviour"
| "index_loop R ((k, v) # m) key =
     (if k = key then Inr v
      else (case m of
              [] \<Rightarrow> Inl UndefinedBehaviour
            | (k', v') # m' \<Rightarrow>
                if k' \<noteq> 0 then index_loop R m key else assert R False (Inr invalid_key)))"

definition operator_index_symbol ::
  "'d runtime \<Rightarrow> 'd any \<Rightarrow> symbol_t \<Rightarrow> call list \<Rightarrow> ((error + 'd any) \<times> call list) option" where
  "operator_index_symbol R this key tr =
     (case cast_map R this tr of
        None \<Rightarrow> None
      | Some (r, tr') \<Rightarrow> Some (bind_result r (\<lambda>m. index_loop R m key), tr'))"

text \<open>The loop of \<^verbatim>\<open>any::contains\<close>; after it comes \<^verbatim>\<open>return false\<close>.\<close>

fun contains_loop :: "(symbol_t \<times> 'd any) list \<Rightarrow> symbol_t \<Rightarrow> error + bool" where
  "contains_loop [] key = Inl UndefinedBehaviour"
| "contains_loop ((k, v) # m) key =
     (if k = key then Inr True
      else (case m of
              [] \<Rightarrow> Inl UndefinedBehaviour
            | (k', v') # m' \<Rightarrow> if k' \<noteq> 0 then contains_loop m key else Inr False))"

definition contains ::
  "'d runtime \<Rightarrow> 'd any \<Rightarrow> symbol_t \<Rightarrow> call list \<Rightarrow> ((error + bool) \<times> call list) option" where
  "contains R this key tr =
     (case cast_map R this tr of
        None \<Rightarrow> None
      | Some (r, tr') \<Rightarrow> Some (bind_result r (\<lambda>m. contains_loop m key), tr'))"

text \<open>\<^verbatim>\<open>any::operator[](const size_t)\<close>: the deque's unchecked \<^verbatim>\<open>operator[]\<close>.\<close>

definition operator_index_size_t ::
  "'d runtime \<Rightarrow> 'd any \<Rightarrow> nat \<Rightarrow> call list \<Rightarrow> ((error + 'd any) \<times> call list) option" where
  "operator_index_size_t R this rhs tr =
     (case operator_array R this tr of
        None \<Rightarrow> None
      | Some (r, tr') \<Rightarrow>
          Some (bind_result r (\<lambda>xs. if rhs < length xs then Inr (xs ! rhs)
                                     else Inl UndefinedBehaviour), tr'))"

text \<open>
  \<^verbatim>\<open>any::operator[](const any&)\<close>: the array first, then the index as an \<^verbatim>\<open>int\<close>; a
  negative \<^verbatim>\<open>int\<close> converts to a \<^verbatim>\<open>size_t\<close> behind every array.
\<close>

definition operator_index_any ::
  "'d runtime \<Rightarrow> 'd any \<Rightarrow> 'd any \<Rightarrow> call list \<Rightarrow> ((error + 'd any) \<times> call list) option" where
  "operator_index_any R this rhs tr =
     (case operator_array R this tr of
        None \<Rightarrow> None
      | Some (Inl e, tr') \<Rightarrow> Some (Inl e, tr')
      | Some (Inr xs, tr') \<Rightarrow>
          (case operator_int R rhs tr' of
             None \<Rightarrow> None
           | Some (r, tr'') \<Rightarrow>
               Some (bind_result r (\<lambda>i. if 0 \<le> sint i \<and> nat (sint i) < length xs
                                          then Inr (xs ! nat (sint i))
                                          else Inl UndefinedBehaviour), tr'')))"

subsection \<open>Native operations\<close>

text \<open>The value of a \<^verbatim>\<open>char\<close> after integral promotion.\<close>

definition char_val :: "'d runtime \<Rightarrow> 8 word \<Rightarrow> int" where
  "char_val R c = (if CHAR_SIGNED R then sint c else uint c)"

text \<open>An \<^verbatim>\<open>int\<close> result wrapped by \<^verbatim>\<open>any(int)\<close>: signed overflow is undefined.\<close>

definition int_result :: "int \<Rightarrow> error + 'd any" where
  "int_result n =
     (if - (2 ^ 31) \<le> n \<and> n \<le> 2 ^ 31 - 1 then Inr (VInteger (word_of_int n))
      else Inl UndefinedBehaviour)"

text \<open>\<^verbatim>\<open>any(char(n))\<close>: the narrowing conversion keeps the low eight bits.\<close>

definition char_result :: "int \<Rightarrow> 'd any" where
  "char_result n = VCharacter (word_of_int n)"

text \<open>A comparison operator of the macro parameter \<^verbatim>\<open>op\<close> on a native ordered type.\<close>

definition native_cmp :: "cmp_op \<Rightarrow> 'a::linorder \<Rightarrow> 'a \<Rightarrow> bool" where
  "native_cmp op x y =
     (case op of EQ \<Rightarrow> x = y | NE \<Rightarrow> x \<noteq> y | LT \<Rightarrow> x < y
               | LE \<Rightarrow> x \<le> y | GT \<Rightarrow> y < x | GE \<Rightarrow> y \<le> x)"

text \<open>
  \<^verbatim>\<open>strcmp\<close>: the first position where the strings differ decides, characters compared
  as \<^verbatim>\<open>unsigned char\<close>; both strings end at their first NUL. Only the sign of the
  result is specified: it is \<open>-1\<close>, \<open>0\<close> or \<open>1\<close> here.
\<close>

fun strcmp :: "cstring \<Rightarrow> cstring \<Rightarrow> int" where
  "strcmp [] [] = 0"
| "strcmp [] (y # ys) = (if y = NUL then 0 else - 1)"
| "strcmp (x # xs) [] = (if x = NUL then 0 else 1)"
| "strcmp (x # xs) (y # ys) =
     (if x \<noteq> y then (if (of_char x :: nat) < of_char y then - 1 else 1)
      else if x = NUL then 0 else strcmp xs ys)"

text \<open>The two opening lines of every binary operator: force the left operand, then the right.\<close>

definition unthunk_both ::
  "'d runtime \<Rightarrow> ('d any \<Rightarrow> 'd any \<Rightarrow> error + 'a) \<Rightarrow> 'd any \<Rightarrow> 'd any \<Rightarrow> call list
     \<Rightarrow> ((error + 'a) \<times> call list) option" where
  "unthunk_both R body lhs' rhs' tr =
     (case unthunkVariant R lhs' tr of
        None \<Rightarrow> None
      | Some (lhs, tr1) \<Rightarrow>
          (case unthunkVariant R rhs' tr1 of
             None \<Rightarrow> None
           | Some (rhs, tr2) \<Rightarrow> Some (body lhs rhs, tr2)))"

text \<open>\<^verbatim>\<open>rhs.type == StringLiteral ? rhs.r : rhs.s->c_str()\<close>.\<close>

definition string_operand :: "'d any \<Rightarrow> error + cstring" where
  "string_operand rhs = (if tag rhs = StringLiteral then member_r rhs else member_s rhs)"

subsection \<open>Comparison operators\<close>

text \<open>The switch of \<^verbatim>\<open>DEFINE_COMPARISON_OPERATOR(op)\<close> and its \<^verbatim>\<open>return false\<close>.\<close>

definition comparison_switch :: "'d runtime \<Rightarrow> cmp_op \<Rightarrow> 'd any \<Rightarrow> 'd any \<Rightarrow> error + bool" where
  "comparison_switch R op lhs rhs =
     (case lhs of
        VInteger li \<Rightarrow>
          assert R (tag lhs = Integer)
            (bind_result (member_i rhs) (\<lambda>ri. Inr (native_cmp op (sint li) (sint ri))))
      | VDouble ld \<Rightarrow>
          assert R (tag lhs = Double)
            (bind_result (member_d rhs) (\<lambda>rd. Inr (d_cmp R op ld rd)))
      | VCharacter lc \<Rightarrow>
          assert R (tag lhs = Character)
            (bind_result (member_c rhs) (\<lambda>rc. Inr (native_cmp op (char_val R lc) (char_val R rc))))
      | VBoolean lb \<Rightarrow>
          assert R (tag lhs = Boolean)
            (bind_result (member_b rhs) (\<lambda>rb. Inr (native_cmp op lb rb)))
      | VStringLiteral lr \<Rightarrow>
          assert R (tag lhs = StringLiteral \<or> tag lhs = String)
            (assert R (tag rhs = StringLiteral \<or> tag rhs = String)
               (bind_result (string_operand rhs) (\<lambda>r. Inr (native_cmp op (strcmp lr r) 0))))
      | VString ls \<Rightarrow>
          assert R (tag lhs = StringLiteral \<or> tag lhs = String)
            (assert R (tag rhs = StringLiteral \<or> tag rhs = String)
               (bind_result (string_operand rhs) (\<lambda>r. Inr (native_cmp op (strcmp ls r) 0))))
      | VPointer lp \<Rightarrow>
          bind_result (member_p rhs) (\<lambda>(rp, st). Inr (native_cmp op lp rp))
      | _ \<Rightarrow> assert R False (Inr False))"

definition comparison ::
  "'d runtime \<Rightarrow> cmp_op \<Rightarrow> 'd any \<Rightarrow> 'd any \<Rightarrow> call list
     \<Rightarrow> ((error + bool) \<times> call list) option" where
  "comparison R op lhs' rhs' tr = unthunk_both R (comparison_switch R op) lhs' rhs' tr"

text \<open>
  \<^verbatim>\<open>DEFINE_CSTR_EQUALS_OPERATOR\<close>, a value against a \<^verbatim>\<open>const char *\<close>. The shortcut
  \<^verbatim>\<open>lhs.r == rhs\<close> compares the pointers; equal pointers hold equal characters, for
  which \<^verbatim>\<open>strcmp\<close> is \<open>0\<close>, so the disjunction is the \<^verbatim>\<open>strcmp\<close> test. In the second
  operator \<^verbatim>\<open>strcmp(lhs, rhs)\<close> converts the forced \<^verbatim>\<open>rhs\<close> by \<^verbatim>\<open>operator cstring\<close>,
  which reads \<^verbatim>\<open>rhs.r\<close>.
\<close>

definition cstr_equals_left ::
  "'d runtime \<Rightarrow> 'd any \<Rightarrow> cstring \<Rightarrow> call list \<Rightarrow> ((error + bool) \<times> call list) option" where
  "cstr_equals_left R lhs' rhs tr =
     (case unthunkVariant R lhs' tr of
        None \<Rightarrow> None
      | Some (lhs, tr') \<Rightarrow>
          Some (assert R (tag lhs = StringLiteral \<or> tag lhs = String)
                  (if tag lhs = StringLiteral
                   then bind_result (member_r lhs) (\<lambda>l. Inr (strcmp l rhs = 0))
                   else bind_result (member_s lhs) (\<lambda>l. Inr (strcmp l rhs = 0))), tr'))"

definition cstr_equals_right ::
  "'d runtime \<Rightarrow> cstring \<Rightarrow> 'd any \<Rightarrow> call list \<Rightarrow> ((error + bool) \<times> call list) option" where
  "cstr_equals_right R lhs rhs' tr =
     (case unthunkVariant R rhs' tr of
        None \<Rightarrow> None
      | Some (rhs, tr') \<Rightarrow>
          Some (assert R (tag rhs = StringLiteral \<or> tag rhs = String)
                  (if tag rhs = StringLiteral
                   then bind_result (member_r rhs) (\<lambda>r. Inr (strcmp lhs r = 0))
                   else bind_result (member_s rhs) (\<lambda>r. Inr (strcmp lhs r = 0))), tr'))"

text \<open>\<^verbatim>\<open>DEFINE_CSTR_COMPARISON_OPERATOR(op)\<close>.\<close>

definition cstr_comparison_left ::
  "'d runtime \<Rightarrow> cmp_op \<Rightarrow> 'd any \<Rightarrow> cstring \<Rightarrow> call list
     \<Rightarrow> ((error + bool) \<times> call list) option" where
  "cstr_comparison_left R op lhs rhs tr =
     (case operator_cstring R lhs tr of
        None \<Rightarrow> None
      | Some (l, tr') \<Rightarrow>
          Some (bind_result l (\<lambda>l. Inr (native_cmp op (strcmp l rhs) 0)), tr'))"

definition cstr_comparison_right ::
  "'d runtime \<Rightarrow> cmp_op \<Rightarrow> cstring \<Rightarrow> 'd any \<Rightarrow> call list
     \<Rightarrow> ((error + bool) \<times> call list) option" where
  "cstr_comparison_right R op lhs rhs tr =
     (case operator_cstring R rhs tr of
        None \<Rightarrow> None
      | Some (r, tr') \<Rightarrow>
          Some (bind_result r (\<lambda>r. Inr (native_cmp op (strcmp lhs r) 0)), tr'))"

subsection \<open>Arithmetic operators\<close>

text \<open>The switch of \<^verbatim>\<open>operator+\<close> and its \<^verbatim>\<open>return nullptr\<close>.\<close>

definition plus_switch :: "'d runtime \<Rightarrow> 'd any \<Rightarrow> 'd any \<Rightarrow> error + 'd any" where
  "plus_switch R lhs rhs =
     (case lhs of
        VInteger li \<Rightarrow>
          assert R (tag lhs = Integer)
            (bind_result (member_i rhs) (\<lambda>ri. int_result (sint li + sint ri)))
      | VDouble ld \<Rightarrow>
          assert R (tag lhs = Double)
            (bind_result (member_d rhs) (\<lambda>rd. Inr (VDouble (d_add R ld rd))))
      | VCharacter lc \<Rightarrow>
          assert R (tag lhs = Character)
            (bind_result (member_c rhs)
               (\<lambda>rc. Inr (char_result (char_val R lc + char_val R rc))))
      | VStringLiteral lr \<Rightarrow>
          assert R (tag lhs = StringLiteral \<or> tag lhs = String)
            (assert R (tag rhs = StringLiteral \<or> tag rhs = String)
               (if tag rhs = StringLiteral
                then bind_result (member_r rhs) (\<lambda>rr. Inr (any_string (c_chars lr @ c_chars rr)))
                else bind_result (member_s rhs) (\<lambda>rs. Inr (any_string (c_chars lr @ rs)))))
      | VString ls \<Rightarrow>
          assert R (tag lhs = StringLiteral \<or> tag lhs = String)
            (assert R (tag rhs = StringLiteral \<or> tag rhs = String)
               (if tag rhs = StringLiteral
                then bind_result (member_r rhs) (\<lambda>rr. Inr (any_string (ls @ c_chars rr)))
                else bind_result (member_s rhs) (\<lambda>rs. Inr (any_string (ls @ rs)))))
      | _ \<Rightarrow> assert R False (Inr any_nullptr))"

definition operator_plus ::
  "'d runtime \<Rightarrow> 'd any \<Rightarrow> 'd any \<Rightarrow> call list \<Rightarrow> ((error + 'd any) \<times> call list) option" where
  "operator_plus R lhs' rhs' tr = unthunk_both R (plus_switch R) lhs' rhs' tr"

text \<open>Binary \<^verbatim>\<open>operator-\<close>.\<close>

definition minus_switch :: "'d runtime \<Rightarrow> 'd any \<Rightarrow> 'd any \<Rightarrow> error + 'd any" where
  "minus_switch R lhs rhs =
     assert R (tag lhs = tag rhs)
       (case lhs of
          VInteger li \<Rightarrow> bind_result (member_i rhs) (\<lambda>ri. int_result (sint li - sint ri))
        | VDouble ld \<Rightarrow> bind_result (member_d rhs) (\<lambda>rd. Inr (VDouble (d_sub R ld rd)))
        | VCharacter lc \<Rightarrow>
            bind_result (member_c rhs) (\<lambda>rc. Inr (char_result (char_val R lc - char_val R rc)))
        | _ \<Rightarrow> assert R False (Inr any_nullptr))"

definition operator_minus ::
  "'d runtime \<Rightarrow> 'd any \<Rightarrow> 'd any \<Rightarrow> call list \<Rightarrow> ((error + 'd any) \<times> call list) option" where
  "operator_minus R lhs' rhs' tr = unthunk_both R (minus_switch R) lhs' rhs' tr"

text \<open>\<^verbatim>\<open>operator*\<close>.\<close>

definition times_switch :: "'d runtime \<Rightarrow> 'd any \<Rightarrow> 'd any \<Rightarrow> error + 'd any" where
  "times_switch R lhs rhs =
     assert R (tag lhs = tag rhs)
       (case lhs of
          VInteger li \<Rightarrow> bind_result (member_i rhs) (\<lambda>ri. int_result (sint li * sint ri))
        | VDouble ld \<Rightarrow> bind_result (member_d rhs) (\<lambda>rd. Inr (VDouble (d_mul R ld rd)))
        | VCharacter lc \<Rightarrow>
            bind_result (member_c rhs) (\<lambda>rc. Inr (char_result (char_val R lc * char_val R rc)))
        | _ \<Rightarrow> assert R False (Inr any_nullptr))"

definition operator_times ::
  "'d runtime \<Rightarrow> 'd any \<Rightarrow> 'd any \<Rightarrow> call list \<Rightarrow> ((error + 'd any) \<times> call list) option" where
  "operator_times R lhs' rhs' tr = unthunk_both R (times_switch R) lhs' rhs' tr"

text \<open>
  \<^verbatim>\<open>operator/\<close>: the native quotient truncates towards zero; a zero divisor and the
  overflowing quotient of \<^verbatim>\<open>INT_MIN / -1\<close> are undefined. No statement of the
  operator tests the divisor.
\<close>

definition divide_switch :: "'d runtime \<Rightarrow> 'd any \<Rightarrow> 'd any \<Rightarrow> error + 'd any" where
  "divide_switch R lhs rhs =
     assert R (tag lhs = tag rhs)
       (case lhs of
          VInteger li \<Rightarrow>
            bind_result (member_i rhs)
              (\<lambda>ri. if sint ri = 0 then Inl UndefinedBehaviour
                     else int_result (sint li sdiv sint ri))
        | VDouble ld \<Rightarrow> bind_result (member_d rhs) (\<lambda>rd. Inr (VDouble (d_div R ld rd)))
        | VCharacter lc \<Rightarrow>
            bind_result (member_c rhs)
              (\<lambda>rc. if char_val R rc = 0 then Inl UndefinedBehaviour
                     else Inr (char_result (char_val R lc sdiv char_val R rc)))
        | _ \<Rightarrow> assert R False (Inr any_nullptr))"

definition operator_divide ::
  "'d runtime \<Rightarrow> 'd any \<Rightarrow> 'd any \<Rightarrow> call list \<Rightarrow> ((error + 'd any) \<times> call list) option" where
  "operator_divide R lhs' rhs' tr = unthunk_both R (divide_switch R) lhs' rhs' tr"

text \<open>
  \<^verbatim>\<open>operator%\<close>: the native remainder has the sign of the dividend; it is undefined
  where the quotient is.
\<close>

definition modulo_switch :: "'d runtime \<Rightarrow> 'd any \<Rightarrow> 'd any \<Rightarrow> error + 'd any" where
  "modulo_switch R lhs rhs =
     assert R (tag lhs = tag rhs)
       (case lhs of
          VInteger li \<Rightarrow>
            bind_result (member_i rhs)
              (\<lambda>ri. if sint ri = 0 then Inl UndefinedBehaviour
                     else bind_result (int_result (sint li sdiv sint ri) :: error + 'd any)
                            (\<lambda>q. int_result (sint li smod sint ri)))
        | VCharacter lc \<Rightarrow>
            bind_result (member_c rhs)
              (\<lambda>rc. if char_val R rc = 0 then Inl UndefinedBehaviour
                     else Inr (char_result (char_val R lc smod char_val R rc)))
        | _ \<Rightarrow> assert R False (Inr any_nullptr))"

definition operator_modulo ::
  "'d runtime \<Rightarrow> 'd any \<Rightarrow> 'd any \<Rightarrow> call list \<Rightarrow> ((error + 'd any) \<times> call list) option" where
  "operator_modulo R lhs' rhs' tr = unthunk_both R (modulo_switch R) lhs' rhs' tr"

text \<open>Unary \<^verbatim>\<open>operator-\<close>: cases for \<^verbatim>\<open>Integer\<close> and \<^verbatim>\<open>Double\<close>, then the default.\<close>

definition negate_switch :: "'d runtime \<Rightarrow> 'd any \<Rightarrow> error + 'd any" where
  "negate_switch R rhs =
     (case rhs of
        VInteger i \<Rightarrow> int_result (- sint i)
      | VDouble d \<Rightarrow> Inr (VDouble (d_neg R d))
      | _ \<Rightarrow> assert R False (Inr any_nullptr))"

definition operator_negate ::
  "'d runtime \<Rightarrow> 'd any \<Rightarrow> call list \<Rightarrow> ((error + 'd any) \<times> call list) option" where
  "operator_negate R rhs' tr =
     (case unthunkVariant R rhs' tr of
        None \<Rightarrow> None
      | Some (rhs, tr') \<Rightarrow> Some (negate_switch R rhs, tr'))"

subsection \<open>A concrete runtime for the closed examples\<close>

text \<open>
  A map with the fields \<open>11\<close> and \<open>12\<close> holding the integers \<open>1\<close> and \<open>2\<close>, at address
  \<open>100\<close>, with its sentinel pair.
\<close>

definition example_map :: "int any" where
  "example_map = any_map 100 [(11, VInteger 1), (12, VInteger 2), (0, any_nullptr)]"

text \<open>
  Thunk \<open>1\<close> returns thunk \<open>2\<close>, thunk \<open>2\<close> returns thunk \<open>3\<close>, thunk \<open>3\<close> returns the
  integer \<open>7\<close>, thunk \<open>4\<close> returns the raw pointer \<open>64\<close>, thunk \<open>5\<close> returns the map,
  thunk \<open>6\<close> returns the closure \<open>9\<close>, every other thunk returns itself. Functions and
  closures return their argument, effects return a character. \<^verbatim>\<open>double\<close> is
  instantiated with \<open>int\<close>, and plain \<^verbatim>\<open>char\<close> is signed.
\<close>

definition example_thunks :: "addr \<Rightarrow> int any" where
  "example_thunks t =
     (if t = 1 then VThunk 2 else if t = 2 then VThunk 3 else if t = 3 then VInteger 7
      else if t = 4 then VRawPointer 64 else if t = 5 then example_map
      else if t = 6 then VClosure 9 else VThunk t)"

definition example_runtime :: "bool \<Rightarrow> int runtime" where
  "example_runtime dbg =
     \<lparr> DEBUG = dbg, CHAR_SIGNED = True,
       thunk_code = example_thunks,
       fn_code = (\<lambda>f x. x), eff_fn_code = (\<lambda>e. VCharacter 101),
       closure_code = (\<lambda>l x. x), eff_closure_code = (\<lambda>k. VCharacter 107),
       d_add = (+), d_sub = (-), d_mul = (*), d_div = (div), d_neg = uminus,
       d_cmp = native_cmp \<rparr>"

section \<open>Thunk forcing: properties\<close>

lemma unthunkVariant_thunk:
  "unthunkVariant R (VThunk t) tr = unthunkVariant R (thunk_code R t) (tr @ [CallThunk t])"
  by (subst unthunkVariant.simps) simp

lemma unthunkVariant_forced:
  "tag a \<noteq> Thunk \<Longrightarrow> unthunkVariant R a tr = Some (a, tr)"
  by (subst unthunkVariant.simps) (cases a; simp)

lemma unthunkVariant_chain:
  "thunk_chain R a ts v \<Longrightarrow> unthunkVariant R a tr = Some (v, tr @ map CallThunk ts)"
proof (induction ts arbitrary: a tr)
  case Nil
  then show ?case by (simp add: unthunkVariant_forced)
next
  case (Cons t ts)
  from Cons.prems have a: "a = VThunk t" and rest: "thunk_chain R (thunk_code R t) ts v"
    by simp_all
  from Cons.IH [OF rest, of "tr @ [CallThunk t]"] a show ?case
    by (simp add: unthunkVariant_thunk)
qed

lemma unthunkVariant_result_forced_aux:
  "unthunkVariant R a tr = Some y \<Longrightarrow> tag (fst y) \<noteq> Thunk"
proof (induction rule: unthunkVariant.raw_induct [rotated 1, consumes 1])
  case (1 unthunk R variant tr y)
  then show ?case by (cases variant) auto
qed

lemma unthunkVariant_result_forced:
  "unthunkVariant R a tr = Some (v, tr') \<Longrightarrow> tag v \<noteq> Thunk"
  using unthunkVariant_result_forced_aux [of R a tr "(v, tr')"] by simp

text \<open>
  C1. Forcing a thunk chain of any depth \<open>length ts\<close> returns the non-thunk value at the
  end of the chain, whatever the depth, after invoking exactly the thunks of the
  chain in order; forcing a value that is not a thunk returns that value and invokes
  nothing; and forcing the result of a forcing again returns the same result.
\<close>

theorem unthunkVariant_iterative_idempotent:
  "(thunk_chain R a ts v \<longrightarrow> unthunkVariant R a tr = Some (v, tr @ map CallThunk ts))
   \<and> (tag a \<noteq> Thunk \<longrightarrow> unthunkVariant R a tr = Some (a, tr))
   \<and> (unthunkVariant R a tr = Some (v, tr') \<longrightarrow> unthunkVariant R v tr' = Some (v, tr'))"
  using unthunkVariant_chain [of R a ts v tr] unthunkVariant_forced [of a R tr]
    unthunkVariant_result_forced [of R a tr v tr'] unthunkVariant_forced [of v R tr']
  by blast

theorem unthunkVariant_iterative_idempotent_witness:
  "thunk_chain (example_runtime True) (VThunk 1) [1, 2, 3] (VInteger 7)
   \<and> unthunkVariant (example_runtime True) (VThunk 1) [] =
       Some (VInteger 7, [CallThunk 1, CallThunk 2, CallThunk 3])
   \<and> unthunkVariant (example_runtime True) (VThunk 3) [] = Some (VInteger 7, [CallThunk 3])
   \<and> tag (VInteger 7 :: int any) \<noteq> Thunk
   \<and> unthunkVariant (example_runtime True) (VInteger 7) [] = Some (VInteger 7, [])"
proof -
  have c3: "thunk_chain (example_runtime True) (VThunk 1) [1, 2, 3] (VInteger 7)"
    by (simp add: example_runtime_def example_thunks_def)
  have c1: "thunk_chain (example_runtime True) (VThunk 3) [3] (VInteger 7)"
    by (simp add: example_runtime_def example_thunks_def)
  have t: "tag (VInteger 7 :: int any) \<noteq> Thunk" by simp
  from unthunkVariant_iterative_idempotent
    [of "example_runtime True" "VThunk 1" "[1, 2, 3]" "VInteger 7" "[]" "[]"] c3
  have r3: "unthunkVariant (example_runtime True) (VThunk 1) [] =
      Some (VInteger 7, [CallThunk 1, CallThunk 2, CallThunk 3])"
    by simp
  from unthunkVariant_iterative_idempotent
    [of "example_runtime True" "VThunk 3" "[3]" "VInteger 7" "[]" "[]"] c1
  have r1: "unthunkVariant (example_runtime True) (VThunk 3) [] = Some (VInteger 7, [CallThunk 3])"
    by simp
  from unthunkVariant_iterative_idempotent
    [of "example_runtime True" "VInteger 7" "[]" "VInteger 7" "[]" "[]"] t
  have r0: "unthunkVariant (example_runtime True) (VInteger 7) [] = Some (VInteger 7, [])"
    by simp
  from c3 r3 r1 t r0 show ?thesis by simp
qed

section \<open>Extraction\<close>

lemma RETURN_VALUE_forced:
  "unthunkVariant R a tr = Some (v, tr') \<Longrightarrow>
   RETURN_VALUE R ty accessor a tr = Some (assert R (tag v = ty) (accessor v), tr')"
  by (simp add: RETURN_VALUE_def)

lemmas extraction_defs =
  operator_int_def operator_double_def operator_bool_def operator_char_def
  operator_array_def extractPointer_def

lemmas member_defs =
  member_t_def member_i_def member_d_def member_c_def member_b_def member_r_def
  member_f_def member_e_def member_u_def member_s_def member_a_def member_l_def
  member_k_def member_p_def

lemmas example_defs = example_runtime_def example_thunks_def example_map_def

lemma example_force_4:
  "unthunkVariant (example_runtime dbg) (VThunk 4) [] = Some (VRawPointer 64, [CallThunk 4])"
  by (simp add: unthunkVariant_thunk unthunkVariant_forced example_defs)

text \<open>
  C2. In a build with \<^verbatim>\<open>DEBUG\<close>, the conversions to \<^verbatim>\<open>int\<close>, \<^verbatim>\<open>double\<close>, \<^verbatim>\<open>bool\<close>,
  \<^verbatim>\<open>char\<close>, C string and array reference and \<^verbatim>\<open>extractPointer\<close> assert the tag of the
  forced variant \<open>v\<close>. \<^verbatim>\<open>rawPointer\<close> asserts the tag of the value \<open>a\<close> it is applied to:
  applied to a thunk it aborts, also when the thunk resolves to a raw pointer, where
  the specification has it succeed.
\<close>

theorem extraction_asserted_tag:
  assumes "DEBUG R" and "unthunkVariant R a tr = Some (v, tr')"
  shows "operator_int R a tr =
           Some (if tag v = Integer then member_i v else Inl ContractViolation, tr')
       \<and> operator_double R a tr =
           Some (if tag v = Double then member_d v else Inl ContractViolation, tr')
       \<and> operator_bool R a tr =
           Some (if tag v = Boolean then member_b v else Inl ContractViolation, tr')
       \<and> operator_char R a tr =
           Some (if tag v = Character then member_c v else Inl ContractViolation, tr')
       \<and> operator_cstring R a tr =
           Some (if tag v = StringLiteral then member_r v
                 else if tag v = String then member_s v else Inl ContractViolation, tr')
       \<and> operator_array R a tr =
           Some (if tag v = Array then member_a v else Inl ContractViolation, tr')
       \<and> extractPointer R t a tr =
           Some (if tag v = t then member_p v else Inl ContractViolation, tr')
       \<and> rawPointer R a tr =
           Some (if tag a = RawPointer then member_u v else Inl ContractViolation, tr')
       \<and> (tag a = Thunk \<longrightarrow> rawPointer R a tr = Some (Inl ContractViolation, tr'))"
  using assms
  by (simp add: extraction_defs RETURN_VALUE_forced operator_cstring_def rawPointer_def
      assert_def)

theorem extraction_asserted_tag_witness:
  "DEBUG (example_runtime True)
   \<and> unthunkVariant (example_runtime True) (VThunk 4) [] = Some (VRawPointer 64, [CallThunk 4])
   \<and> tag (VThunk 4 :: int any) = Thunk
   \<and> rawPointer (example_runtime True) (VThunk 4) [] = Some (Inl ContractViolation, [CallThunk 4])
   \<and> operator_int (example_runtime True) (VThunk 4) [] = Some (Inl ContractViolation, [CallThunk 4])
   \<and> extractPointer (example_runtime True) RawPointer (VThunk 4) [] =
       Some (Inl UndefinedBehaviour, [CallThunk 4])"
proof -
  have d: "DEBUG (example_runtime True)" by (simp add: example_runtime_def)
  from extraction_asserted_tag [OF d example_force_4, of RawPointer] d example_force_4
  show ?thesis by (simp add: member_p_def)
qed

section \<open>Operators on operands of different tags\<close>

lemmas binary_defs =
  comparison_def operator_plus_def operator_minus_def operator_times_def
  operator_divide_def operator_modulo_def unthunk_both_def

lemmas switch_defs =
  comparison_switch_def plus_switch_def minus_switch_def times_switch_def
  divide_switch_def modulo_switch_def

text \<open>
  C3. In a build with \<^verbatim>\<open>DEBUG\<close>, a comparison operator and \<^verbatim>\<open>operator+\<close> applied to an
  \<^verbatim>\<open>Integer\<close> and a \<^verbatim>\<open>Double\<close> pass their only assertion, which is on the tag of the left
  operand inside the case for that tag, and go on to read the \<^verbatim>\<open>int\<close> member of the
  right operand: they do not abort, where the specification has them abort. The operators
  \<^verbatim>\<open>-\<close>, \<^verbatim>\<open>*\<close>, \<^verbatim>\<open>/\<close> and \<^verbatim>\<open>%\<close> assert that the two tags are equal and abort.
\<close>

theorem mismatched_tags_assertions:
  "comparison (R\<lparr>DEBUG := True\<rparr>) op (VInteger i) (VDouble d) tr =
     Some (Inl UndefinedBehaviour, tr)
   \<and> operator_plus (R\<lparr>DEBUG := True\<rparr>) (VInteger i) (VDouble d) tr =
     Some (Inl UndefinedBehaviour, tr)
   \<and> operator_minus (R\<lparr>DEBUG := True\<rparr>) (VInteger i) (VDouble d) tr =
     Some (Inl ContractViolation, tr)
   \<and> operator_times (R\<lparr>DEBUG := True\<rparr>) (VInteger i) (VDouble d) tr =
     Some (Inl ContractViolation, tr)
   \<and> operator_divide (R\<lparr>DEBUG := True\<rparr>) (VInteger i) (VDouble d) tr =
     Some (Inl ContractViolation, tr)
   \<and> operator_modulo (R\<lparr>DEBUG := True\<rparr>) (VInteger i) (VDouble d) tr =
     Some (Inl ContractViolation, tr)"
  by (simp add: binary_defs unthunkVariant_forced switch_defs assert_def member_i_def
      bind_result_def)

theorem mismatched_tags_assertions_witness:
  "comparison (example_runtime True) EQ (VInteger 1) (VDouble 2) [] =
     Some (Inl UndefinedBehaviour, [])
   \<and> operator_plus (example_runtime True) (VInteger 1) (VDouble 2) [] =
     Some (Inl UndefinedBehaviour, [])
   \<and> operator_minus (example_runtime True) (VInteger 1) (VDouble 2) [] =
     Some (Inl ContractViolation, [])"
  using mismatched_tags_assertions [of "example_runtime True" EQ 1 2 "[]"]
  by (simp add: example_runtime_def)

section \<open>String comparison\<close>

lemma strcmp_refl: "strcmp x x = 0"
  by (induction x) simp_all

lemma comparison_strings:
  "tag a = StringLiteral \<or> tag a = String \<Longrightarrow> tag b = StringLiteral \<or> tag b = String \<Longrightarrow>
   comparison R op a b tr =
     Some (bind_result (string_operand a) (\<lambda>l. bind_result (string_operand b)
             (\<lambda>r. Inr (native_cmp op (strcmp l r) 0))), tr)"
  by (cases a; cases b)
     (simp_all add: comparison_def unthunk_both_def unthunkVariant_forced comparison_switch_def
        assert_def string_operand_def member_r_def member_s_def bind_result_def)

lemma cstr_equals_strings:
  "cstr_equals_left R (VStringLiteral x) y tr = Some (Inr (strcmp x y = 0), tr)
   \<and> cstr_equals_left R (VString x) y tr = Some (Inr (strcmp x y = 0), tr)
   \<and> cstr_equals_right R x (VStringLiteral y) tr = Some (Inr (strcmp x y = 0), tr)
   \<and> cstr_equals_right R x (VString y) tr = Some (Inr (strcmp x y = 0), tr)"
  by (simp add: cstr_equals_left_def cstr_equals_right_def unthunkVariant_forced assert_def
      member_r_def member_s_def bind_result_def)

text \<open>
  C4. Every comparison operator applied to two string-tagged values, in each of the
  four combinations of \<^verbatim>\<open>StringLiteral\<close> and \<^verbatim>\<open>String\<close>, is the operator applied to
  \<^verbatim>\<open>strcmp\<close> of the two contents and \<open>0\<close>; when the two hold the same characters \<open>x\<close>,
  the operators \<^verbatim>\<open>==\<close>, \<^verbatim>\<open><=\<close> and \<^verbatim>\<open>>=\<close> return true and \<^verbatim>\<open>!=\<close>, \<^verbatim>\<open><\<close> and \<^verbatim>\<open>>\<close> return
  false, whichever representation is on which side. The equality operators against
  a \<^verbatim>\<open>const char *\<close> compare by \<^verbatim>\<open>strcmp\<close> as well.
\<close>

theorem string_comparison_by_content:
  "comparison R op (VStringLiteral x) (VString y) tr =
     Some (Inr (native_cmp op (strcmp x y) 0), tr)
   \<and> comparison R op (VString x) (VStringLiteral y) tr =
     Some (Inr (native_cmp op (strcmp x y) 0), tr)
   \<and> comparison R op (VStringLiteral x) (VStringLiteral y) tr =
     Some (Inr (native_cmp op (strcmp x y) 0), tr)
   \<and> comparison R op (VString x) (VString y) tr =
     Some (Inr (native_cmp op (strcmp x y) 0), tr)
   \<and> comparison R op (VStringLiteral x) (VString x) tr =
     Some (Inr (op = EQ \<or> op = LE \<or> op = GE), tr)
   \<and> comparison R op (VString x) (VStringLiteral x) tr =
     Some (Inr (op = EQ \<or> op = LE \<or> op = GE), tr)
   \<and> comparison R op (VStringLiteral x) (VStringLiteral x) tr =
     Some (Inr (op = EQ \<or> op = LE \<or> op = GE), tr)
   \<and> comparison R op (VString x) (VString x) tr =
     Some (Inr (op = EQ \<or> op = LE \<or> op = GE), tr)
   \<and> cstr_equals_left R (VStringLiteral x) x tr = Some (Inr True, tr)
   \<and> cstr_equals_left R (VString x) x tr = Some (Inr True, tr)
   \<and> cstr_equals_right R x (VStringLiteral x) tr = Some (Inr True, tr)
   \<and> cstr_equals_right R x (VString x) tr = Some (Inr True, tr)"
  by (cases op)
     (simp_all add: comparison_strings cstr_equals_strings string_operand_def member_r_def
        member_s_def bind_result_def strcmp_refl native_cmp_def)

theorem string_comparison_by_content_witness:
  "comparison (example_runtime True) EQ (VStringLiteral ''abc'') (VString ''abc'') [] =
     Some (Inr True, [])
   \<and> comparison (example_runtime True) EQ (VString ''abc'') (VStringLiteral ''abc'') [] =
     Some (Inr True, [])
   \<and> comparison (example_runtime True) NE (VString ''abc'') (VStringLiteral ''abc'') [] =
     Some (Inr False, [])
   \<and> comparison (example_runtime True) LT (VStringLiteral ''abc'') (VString ''abd'') [] =
     Some (Inr True, [])
   \<and> comparison (example_runtime True) GE (VString ''abc'') (VStringLiteral ''abd'') [] =
     Some (Inr False, [])"
proof -
  have s: "strcmp ''abc'' ''abd'' = - 1"
    by (simp add: NUL_def)
  from string_comparison_by_content [of "example_runtime True" EQ "''abc''" "''abc''" "[]"]
    string_comparison_by_content [of "example_runtime True" NE "''abc''" "''abc''" "[]"]
    string_comparison_by_content [of "example_runtime True" LT "''abc''" "''abd''" "[]"]
    string_comparison_by_content [of "example_runtime True" GE "''abc''" "''abd''" "[]"]
  show ?thesis by (simp add: s NUL_def strcmp_refl native_cmp_def)
qed

section \<open>Map lookup\<close>

lemma index_loop_sentinel:
  "entries \<noteq> [] \<Longrightarrow> 0 \<notin> fst ` set entries \<Longrightarrow>
   index_loop R (entries @ [(0, s)]) key =
     (case map_of entries key of Some v \<Rightarrow> Inr v | None \<Rightarrow> assert R False (Inr invalid_key))"
proof (induction entries)
  case Nil
  then show ?case by simp
next
  case (Cons e entries)
  obtain k v where e: "e = (k, v)" by (cases e)
  show ?case
  proof (cases entries)
    case Nil
    with e show ?thesis by simp
  next
    case (Cons e' es)
    obtain k' v' where e': "e' = (k', v')" by (cases e')
    from Cons.prems Cons e' have "k' \<noteq> 0" by auto
    moreover from Cons.prems Cons have "0 \<notin> fst ` set entries" "entries \<noteq> []" by auto
    ultimately show ?thesis using Cons.IH e e' Cons by simp
  qed
qed

lemma contains_loop_sentinel:
  "entries \<noteq> [] \<Longrightarrow> 0 \<notin> fst ` set entries \<Longrightarrow>
   contains_loop (entries @ [(0, s)]) key = Inr (key \<in> fst ` set entries)"
proof (induction entries)
  case Nil
  then show ?case by simp
next
  case (Cons e entries)
  obtain k v where e: "e = (k, v)" by (cases e)
  show ?case
  proof (cases entries)
    case Nil
    with e show ?thesis by auto
  next
    case (Cons e' es)
    obtain k' v' where e': "e' = (k', v')" by (cases e')
    from Cons.prems Cons e' have "k' \<noteq> 0" by auto
    moreover from Cons.prems Cons have "0 \<notin> fst ` set entries" "entries \<noteq> []" by auto
    ultimately show ?thesis using Cons.IH e e' Cons by auto
  qed
qed

lemma cast_map_forced:
  "unthunkVariant R a tr = Some (VMap p m, tr') \<Longrightarrow> cast_map R a tr = Some (Inr m, tr')"
  by (simp add: cast_map_def extractPointer_def RETURN_VALUE_def assert_def member_p_def
      bind_result_def)

lemma example_force_5:
  "unthunkVariant (example_runtime dbg) (VThunk 5) [] =
     Some (VMap 100 ([(11, VInteger 1), (12, VInteger 2)] @ [(0, VRawPointer 0)]), [CallThunk 5])"
  by (simp add: unthunkVariant_thunk unthunkVariant_forced example_defs any_map_def
      any_nullptr_def)

text \<open>
  C5. Let \<open>a\<close> force to a map whose storage is the pairs \<open>entries\<close>, at least one and
  all with a key other than null, followed by the sentinel pair. Lookup of \<open>key\<close>
  returns the value of the first pair with that key; when no pair has the key it is
  a contract violation in a build with \<^verbatim>\<open>DEBUG\<close> (without it, the null raw pointer
  \<^verbatim>\<open>invalid_key\<close> is returned). \<^verbatim>\<open>contains\<close> never fails and returns true exactly when a
  pair has the key, that is, when lookup finds a value.
\<close>

theorem map_lookup_and_contains:
  assumes "unthunkVariant R a tr = Some (VMap p (entries @ [(0, s)]), tr')"
    and "entries \<noteq> []" and "0 \<notin> fst ` set entries"
  shows "operator_index_symbol R a key tr =
           Some ((case map_of entries key of
                    Some v \<Rightarrow> Inr v
                  | None \<Rightarrow> if DEBUG R then Inl ContractViolation else Inr invalid_key), tr')
         \<and> contains R a key tr = Some (Inr (map_of entries key \<noteq> None), tr')"
proof -
  have m: "cast_map R a tr = Some (Inr (entries @ [(0, s)]), tr')"
    using assms(1) by (rule cast_map_forced)
  have i: "operator_index_symbol R a key tr =
      Some (index_loop R (entries @ [(0, s)]) key, tr')"
    by (simp add: operator_index_symbol_def m bind_result_def)
  have c: "contains R a key tr = Some (contains_loop (entries @ [(0, s)]) key, tr')"
    by (simp add: contains_def m bind_result_def)
  have k: "(key \<in> fst ` set entries) = (map_of entries key \<noteq> None)"
    by (simp add: map_of_eq_None_iff)
  show ?thesis
    unfolding i c index_loop_sentinel [OF assms(2,3)] contains_loop_sentinel [OF assms(2,3)] k
    by (simp add: assert_def split: option.splits)
qed

theorem map_lookup_and_contains_witness:
  "unthunkVariant (example_runtime True) (VThunk 5) [] =
     Some (VMap 100 ([(11, VInteger 1), (12, VInteger 2)] @ [(0, VRawPointer 0)]), [CallThunk 5])
   \<and> [(11 :: nat, VInteger 1 :: int any), (12, VInteger 2)] \<noteq> []
   \<and> 0 \<notin> fst ` set [(11 :: nat, VInteger 1 :: int any), (12, VInteger 2)]
   \<and> operator_index_symbol (example_runtime True) (VThunk 5) 12 [] =
       Some (Inr (VInteger 2), [CallThunk 5])
   \<and> contains (example_runtime True) (VThunk 5) 12 [] = Some (Inr True, [CallThunk 5])
   \<and> operator_index_symbol (example_runtime True) (VThunk 5) 13 [] =
       Some (Inl ContractViolation, [CallThunk 5])
   \<and> contains (example_runtime True) (VThunk 5) 13 [] = Some (Inr False, [CallThunk 5])"
proof -
  have ne: "[(11 :: nat, VInteger 1 :: int any), (12, VInteger 2)] \<noteq> []" by simp
  have nz: "0 \<notin> fst ` set [(11 :: nat, VInteger 1 :: int any), (12, VInteger 2)]" by simp
  have d: "DEBUG (example_runtime True)" by (simp add: example_runtime_def)
  from map_lookup_and_contains [OF example_force_5 ne nz, of True 12]
    map_lookup_and_contains [OF example_force_5 ne nz, of True 13] d
  have "operator_index_symbol (example_runtime True) (VThunk 5) 12 [] =
       Some (Inr (VInteger 2), [CallThunk 5])
   \<and> contains (example_runtime True) (VThunk 5) 12 [] = Some (Inr True, [CallThunk 5])
   \<and> operator_index_symbol (example_runtime True) (VThunk 5) 13 [] =
       Some (Inl ContractViolation, [CallThunk 5])
   \<and> contains (example_runtime True) (VThunk 5) 13 [] = Some (Inr False, [CallThunk 5])"
    by simp
  with example_force_5 [of True] ne nz show ?thesis by blast
qed

section \<open>Unary negation\<close>

lemma sint_range32: "- (2 ^ 31) \<le> sint (a :: 32 word) \<and> sint a \<le> 2 ^ 31 - 1"
  using sint_ge [of a] sint_lt [of a] by simp

lemma example_force_3:
  "unthunkVariant (example_runtime dbg) (VThunk 3) [] = Some (VInteger 7, [CallThunk 3])"
  by (simp add: unthunkVariant_thunk unthunkVariant_forced example_defs)

text \<open>
  C6, as the specification states it, fails: in a build with \<^verbatim>\<open>DEBUG\<close>, unary negation of the
  character \<open>97\<close> is a contract violation and not the negated character.
\<close>

theorem negate_character_counterexample:
  "operator_negate (example_runtime True) (VCharacter 97) [] = Some (Inl ContractViolation, [])
   \<and> operator_negate (example_runtime True) (VCharacter 97) []
       \<noteq> Some (Inr (VCharacter (- 97)), [])"
  by (simp add: operator_negate_def unthunkVariant_forced negate_switch_def assert_def
      example_runtime_def)

text \<open>
  C6, amended. Unary negation is defined for exactly the forced tags \<^verbatim>\<open>Integer\<close> and
  \<^verbatim>\<open>Double\<close>: an integer other than \<^verbatim>\<open>INT_MIN\<close> gives the negated integer, a double
  the native negation; every other forced tag, \<^verbatim>\<open>Character\<close> among them, is a contract
  violation in a build with \<^verbatim>\<open>DEBUG\<close>.
\<close>

theorem negate_defined_for_integer_and_double:
  assumes "unthunkVariant R a tr = Some (v, tr')"
  shows "(\<forall>i. v = VInteger i \<and> sint i \<noteq> - (2 ^ 31) \<longrightarrow>
            operator_negate R a tr = Some (Inr (VInteger (- i)), tr'))
       \<and> (\<forall>d. v = VDouble d \<longrightarrow> operator_negate R a tr = Some (Inr (VDouble (d_neg R d)), tr'))
       \<and> (tag v \<noteq> Integer \<and> tag v \<noteq> Double \<and> DEBUG R \<longrightarrow>
            operator_negate R a tr = Some (Inl ContractViolation, tr'))"
proof (intro conjI allI impI)
  fix i assume h: "v = VInteger i \<and> sint i \<noteq> - (2 ^ 31)"
  with sint_range32 [of i] have "- (2 ^ 31) \<le> - sint i" "- sint i \<le> 2 ^ 31 - 1" by simp_all
  then have "int_result (- sint i) = (Inr (VInteger (- i)) :: error + 'a any)"
    by (simp add: int_result_def)
  with h assms show "operator_negate R a tr = Some (Inr (VInteger (- i)), tr')"
    by (simp add: operator_negate_def negate_switch_def)
next
  fix d assume "v = VDouble d"
  with assms show "operator_negate R a tr = Some (Inr (VDouble (d_neg R d)), tr')"
    by (simp add: operator_negate_def negate_switch_def)
next
  assume "tag v \<noteq> Integer \<and> tag v \<noteq> Double \<and> DEBUG R"
  with assms show "operator_negate R a tr = Some (Inl ContractViolation, tr')"
    by (cases v) (simp_all add: operator_negate_def negate_switch_def assert_def)
qed

theorem negate_defined_for_integer_and_double_witness:
  "unthunkVariant (example_runtime True) (VThunk 3) [] = Some (VInteger 7, [CallThunk 3])
   \<and> sint (7 :: 32 word) \<noteq> - (2 ^ 31)
   \<and> operator_negate (example_runtime True) (VThunk 3) [] =
       Some (Inr (VInteger (- 7)), [CallThunk 3])
   \<and> unthunkVariant (example_runtime True) (VDouble 2) [] = Some (VDouble 2, [])
   \<and> operator_negate (example_runtime True) (VDouble 2) [] = Some (Inr (VDouble (- 2)), [])
   \<and> unthunkVariant (example_runtime True) (VBoolean True) [] = Some (VBoolean True, [])
   \<and> tag (VBoolean True :: int any) \<noteq> Integer \<and> tag (VBoolean True :: int any) \<noteq> Double
   \<and> DEBUG (example_runtime True)
   \<and> operator_negate (example_runtime True) (VBoolean True) [] =
       Some (Inl ContractViolation, [])"
proof -
  have d: "DEBUG (example_runtime True)" by (simp add: example_runtime_def)
  have n: "d_neg (example_runtime True) 2 = - 2" by (simp add: example_runtime_def)
  have s: "sint (7 :: 32 word) \<noteq> - (2 ^ 31)" by simp
  have f2: "unthunkVariant (example_runtime True) (VDouble 2) [] = Some (VDouble 2, [])"
    by (simp add: unthunkVariant_forced)
  have f3: "unthunkVariant (example_runtime True) (VBoolean True) [] = Some (VBoolean True, [])"
    by (simp add: unthunkVariant_forced)
  from negate_defined_for_integer_and_double [OF example_force_3 [of True]] s
  have r1: "operator_negate (example_runtime True) (VThunk 3) [] =
       Some (Inr (VInteger (- 7)), [CallThunk 3])" by blast
  from negate_defined_for_integer_and_double [OF f2] n
  have r2: "operator_negate (example_runtime True) (VDouble 2) [] = Some (Inr (VDouble (- 2)), [])"
    by simp
  from negate_defined_for_integer_and_double [OF f3] d
  have r3: "operator_negate (example_runtime True) (VBoolean True) [] =
       Some (Inl ContractViolation, [])" by simp
  from example_force_3 [of True] s r1 f2 r2 f3 d r3 show ?thesis by simp
qed

section \<open>Construction and extraction\<close>

lemmas constructor_defs =
  any_int_def any_double_def any_char_def any_bool_def any_string_literal_def
  any_char_ptr_def any_string_def any_array_def any_void_ptr_def any_nullptr_def

text \<open>
  C7. A value constructed from an \<^verbatim>\<open>int\<close>, a \<^verbatim>\<open>double\<close>, a \<^verbatim>\<open>char\<close>, a \<^verbatim>\<open>bool\<close>, a string
  literal, an owned string, an array or a raw pointer, and converted back at once by
  the extraction operator of that type, is the value it was constructed from, in
  every build, and no callable is invoked. For a string the extraction operator is
  the one to C string: it returns the literal's pointer, and for an owned string the
  pointer to its characters; a string built from a \<^verbatim>\<open>char *\<close> holds the characters of
  that C string.
\<close>

theorem construct_then_extract:
  "operator_int R (any_int n) tr = Some (Inr n, tr)
   \<and> operator_double R (any_double d) tr = Some (Inr d, tr)
   \<and> operator_char R (any_char c) tr = Some (Inr c, tr)
   \<and> operator_bool R (any_bool b) tr = Some (Inr b, tr)
   \<and> operator_cstring R (any_string_literal r) tr = Some (Inr r, tr)
   \<and> operator_cstring R (any_string s) tr = Some (Inr s, tr)
   \<and> operator_cstring R (any_char_ptr r) tr = Some (Inr (c_chars r), tr)
   \<and> operator_array R (any_array xs) tr = Some (Inr xs, tr)
   \<and> rawPointer R (any_void_ptr p) tr = Some (Inr p, tr)
   \<and> rawPointer R any_nullptr tr = Some (Inr 0, tr)"
  by (simp add: extraction_defs operator_cstring_def rawPointer_def RETURN_VALUE_def
      constructor_defs unthunkVariant_forced assert_def member_defs)

theorem construct_then_extract_witness:
  "operator_int (example_runtime True) (any_int 42) [] = Some (Inr 42, [])
   \<and> operator_double (example_runtime True) (any_double 5) [] = Some (Inr 5, [])
   \<and> operator_char (example_runtime True) (any_char 97) [] = Some (Inr 97, [])
   \<and> operator_bool (example_runtime True) (any_bool True) [] = Some (Inr True, [])
   \<and> operator_cstring (example_runtime True) (any_string_literal ''abc'') [] =
       Some (Inr ''abc'', [])
   \<and> operator_cstring (example_runtime True) (any_string ''abc'') [] = Some (Inr ''abc'', [])
   \<and> operator_array (example_runtime True) (any_array [any_int 1, any_bool False]) [] =
       Some (Inr [any_int 1, any_bool False], [])
   \<and> rawPointer (example_runtime True) (any_void_ptr 64) [] = Some (Inr 64, [])"
  using construct_then_extract [of "example_runtime True" 42 "[]" 5 97 True "''abc''" "''abc''"
      "[any_int 1, any_bool False]" 64]
  by simp

section \<open>Invocation\<close>

lemma example_force_6:
  "unthunkVariant (example_runtime dbg) (VThunk 6) [] = Some (VClosure 9, [CallThunk 6])"
  by (simp add: unthunkVariant_thunk unthunkVariant_forced example_defs)

text \<open>
  C8. Let \<open>this\<close> force to the variant \<open>v\<close>, with the trace \<open>tr'\<close> after the forcing.
  Invocation with one argument calls the closure object when \<open>v\<close> is a \<^verbatim>\<open>Closure\<close> and
  the code pointer when \<open>v\<close> is a \<^verbatim>\<open>Function\<close>, passing the argument as it is, and
  returns what the call returns; the call is made after the forcing. Every other tag
  is a contract violation in a build with \<^verbatim>\<open>DEBUG\<close> (without it, the read of the member
  \<^verbatim>\<open>f\<close> is undefined). Invocation with no argument does the same over \<^verbatim>\<open>EffClosure\<close>
  and \<^verbatim>\<open>EffFunction\<close>.
\<close>

theorem invocation_dispatch:
  assumes "unthunkVariant R this tr = Some (v, tr')"
  shows "operator_call R this arg tr =
           Some (case v of
                   VClosure l \<Rightarrow> (Inr (closure_code R l arg), tr' @ [CallClosure l])
                 | VFunction f \<Rightarrow> (Inr (fn_code R f arg), tr' @ [CallFunction f])
                 | _ \<Rightarrow> (Inl (if DEBUG R then ContractViolation else UndefinedBehaviour), tr'))
       \<and> operator_call_eff R this tr =
           Some (case v of
                   VEffClosure k \<Rightarrow> (Inr (eff_closure_code R k), tr' @ [CallEffClosure k])
                 | VEffFunction e \<Rightarrow> (Inr (eff_fn_code R e), tr' @ [CallEffFunction e])
                 | _ \<Rightarrow> (Inl (if DEBUG R then ContractViolation else UndefinedBehaviour), tr'))"
  using assms
  by (cases v)
     (simp_all add: operator_call_def operator_call_eff_def assert_def member_l_def member_f_def
        member_k_def member_e_def)

theorem invocation_dispatch_witness:
  "unthunkVariant (example_runtime True) (VThunk 6) [] = Some (VClosure 9, [CallThunk 6])
   \<and> operator_call (example_runtime True) (VThunk 6) (VThunk 1) [] =
       Some (Inr (VThunk 1), [CallThunk 6, CallClosure 9])
   \<and> operator_call_eff (example_runtime True) (VThunk 6) [] =
       Some (Inl ContractViolation, [CallThunk 6])
   \<and> unthunkVariant (example_runtime True) (VEffFunction 8) [] = Some (VEffFunction 8, [])
   \<and> operator_call_eff (example_runtime True) (VEffFunction 8) [] =
       Some (Inr (VCharacter 101), [CallEffFunction 8])
   \<and> operator_call (example_runtime True) (VEffFunction 8) (VThunk 1) [] =
       Some (Inl ContractViolation, [])"
proof -
  have f8: "unthunkVariant (example_runtime True) (VEffFunction 8) [] = Some (VEffFunction 8, [])"
    by (simp add: unthunkVariant_forced)
  from invocation_dispatch [OF example_force_6 [of True], of "VThunk 1"]
    invocation_dispatch [OF f8, of "VThunk 1"]
  have "operator_call (example_runtime True) (VThunk 6) (VThunk 1) [] =
       Some (Inr (VThunk 1), [CallThunk 6, CallClosure 9])
   \<and> operator_call_eff (example_runtime True) (VThunk 6) [] =
       Some (Inl ContractViolation, [CallThunk 6])
   \<and> operator_call_eff (example_runtime True) (VEffFunction 8) [] =
       Some (Inr (VCharacter 101), [CallEffFunction 8])
   \<and> operator_call (example_runtime True) (VEffFunction 8) (VThunk 1) [] =
       Some (Inl ContractViolation, [])"
    by (simp add: example_runtime_def)
  with example_force_6 [of True] f8 show ?thesis by blast
qed

section \<open>Copy, move and assignment\<close>

lemma unthunkVariant_trace_grows:
  "unthunkVariant R a tr = Some y \<Longrightarrow>
   length tr + (if tag a = Thunk then 1 else 0) \<le> length (snd y)"
proof (induction rule: unthunkVariant.raw_induct [rotated 1, consumes 1])
  case (1 unthunk R variant tr y)
  show ?case
  proof (cases variant)
    case (VThunk t)
    with 1(2) have "unthunk R (thunk_code R t) (tr @ [CallThunk t]) = Some y" by simp
    from 1(1) [OF this] have "length (tr @ [CallThunk t]) \<le> length (snd y)"
      by (simp split: if_splits)
    with VThunk show ?thesis by simp
  qed (use 1(2) in auto)
qed

lemma forcing_a_thunk_is_traced:
  "unthunkVariant R (VThunk t) tr \<noteq> Some (v, tr)"
  using unthunkVariant_trace_grows [of R "VThunk t" tr "(v, tr)"] by auto

text \<open>
  C9. The copy constructor, the move constructor, copy assignment and move assignment
  applied to a thunk give a value that is the same thunk, with the same code pointer,
  and leave the trace of invoked callables as it was: the thunk is not called. Forcing
  that thunk, in contrast, never leaves the trace as it was.
\<close>

theorem copy_preserves_thunk:
  "copy_constructor (VThunk t) tr = (VThunk t, tr)
   \<and> move_constructor (VThunk t) tr = (VThunk t, tr)
   \<and> copy_assignment this (VThunk t) tr = (VThunk t, tr)
   \<and> move_assignment this (VThunk t) tr = (VThunk t, tr)
   \<and> tag (fst (copy_constructor (VThunk t) tr)) = Thunk
   \<and> member_t (fst (copy_constructor (VThunk t :: 'd any) tr)) = member_t (VThunk t :: 'd any)
   \<and> unthunkVariant R (VThunk t) tr \<noteq> Some (v, tr)"
  by (simp add: copy_constructor_def move_constructor_def copy_assignment_def
      move_assignment_def forcing_a_thunk_is_traced)

theorem copy_preserves_thunk_witness:
  "copy_constructor (VThunk 1 :: int any) [] = (VThunk 1, [])
   \<and> move_constructor (VThunk 1 :: int any) [] = (VThunk 1, [])
   \<and> copy_assignment (VInteger 5 :: int any) (VThunk 1) [] = (VThunk 1, [])
   \<and> move_assignment (VString ''abc'' :: int any) (VThunk 1) [] = (VThunk 1, [])
   \<and> unthunkVariant (example_runtime True) (VThunk 1) [] \<noteq> Some (VInteger 7, [])"
  using copy_preserves_thunk [of 1 "[]" "VInteger 5" "example_runtime True" "VInteger 7"]
    copy_preserves_thunk [of 1 "[]" "VString ''abc''" "example_runtime True" "VInteger 7"]
  by blast

section \<open>Integer division and remainder\<close>

lemma int_div_le_dividend:
  fixes x y :: int
  assumes "0 \<le> x" "0 < y"
  shows "x div y \<le> x"
  using assms(1) int_div_le_self [of x y] by (cases "x = 0") simp_all

lemma sdiv_in_range:
  fixes a b :: int
  assumes "- (2 ^ 31) \<le> a" "a \<le> 2 ^ 31 - 1" "b \<noteq> 0" "\<not> (a = - (2 ^ 31) \<and> b = - 1)"
  shows "- (2 ^ 31) \<le> a sdiv b \<and> a sdiv b \<le> 2 ^ 31 - 1"
proof -
  define q where "q = \<bar>a\<bar> div \<bar>b\<bar>"
  have b: "0 < \<bar>b\<bar>" using assms(3) by simp
  have q0: "0 \<le> q" unfolding q_def using b by (simp add: pos_imp_zdiv_nonneg_iff)
  have qa: "q \<le> \<bar>a\<bar>" unfolding q_def using b by (intro int_div_le_dividend) simp_all
  have r: "a sdiv b = sgn a * sgn b * q" by (simp add: signed_divide_int_def q_def)
  consider (pos) "0 \<le> a" | (negpos) "a < 0" "0 < b" | (negone) "a < 0" "b = - 1"
    | (negneg) "a < 0" "b \<le> - 2"
    using assms(3) by linarith
  then show ?thesis
  proof cases
    case pos
    with assms(2) qa have "q \<le> 2 ^ 31 - 1" by simp
    moreover have "\<bar>sgn a * sgn b * q\<bar> \<le> q"
      using q0 by (simp add: abs_mult abs_sgn_eq)
    ultimately show ?thesis unfolding r by linarith
  next
    case negpos
    then have "a sdiv b = - q" unfolding r by simp
    moreover from assms(1) negpos qa have "q \<le> 2 ^ 31" by simp
    ultimately show ?thesis using q0 by simp
  next
    case negone
    with assms(4) assms(1) have "- (2 ^ 31) < a" by simp
    with negone qa have "q \<le> 2 ^ 31 - 1" by simp
    moreover from negone have "a sdiv b = q" unfolding r by simp
    ultimately show ?thesis using q0 by simp
  next
    case negneg
    then have "2 \<le> \<bar>b\<bar>" by simp
    with zdiv_mono2 [of "\<bar>a\<bar>" 2 "\<bar>b\<bar>"] have "q \<le> \<bar>a\<bar> div 2" unfolding q_def by simp
    also from assms(1) negneg have "\<bar>a\<bar> div 2 \<le> 2 ^ 31 div 2"
      by (intro zdiv_mono1) simp_all
    finally have "q \<le> 2 ^ 31 - 1" by simp
    moreover from negneg have "a sdiv b = q" unfolding r by simp
    ultimately show ?thesis using q0 by simp
  qed
qed

lemma smod_in_range:
  fixes a b :: int
  assumes "- (2 ^ 31) \<le> b" "b \<le> 2 ^ 31 - 1" "b \<noteq> 0"
  shows "- (2 ^ 31) \<le> a smod b \<and> a smod b \<le> 2 ^ 31 - 1"
proof -
  define m where "m = \<bar>a\<bar> mod \<bar>b\<bar>"
  have b: "0 < \<bar>b\<bar>" using assms(3) by simp
  have m0: "0 \<le> m" unfolding m_def using b by simp
  have "m < \<bar>b\<bar>" unfolding m_def using b by (rule pos_mod_bound)
  moreover from assms(1,2) have "\<bar>b\<bar> \<le> 2 ^ 31" by simp
  ultimately have m1: "m \<le> 2 ^ 31 - 1" by simp
  have r: "a smod b = sgn a * m" by (simp add: signed_modulo_int_def m_def)
  have "\<bar>sgn a * m\<bar> \<le> m" using m0 by (simp add: abs_mult abs_sgn_eq)
  with m1 show ?thesis unfolding r by linarith
qed

text \<open>
  C10. \<^verbatim>\<open>operator/\<close> and \<^verbatim>\<open>operator%\<close> on two integers test nothing about the divisor,
  in a build with \<^verbatim>\<open>DEBUG\<close> or without. With a divisor other than zero (and not the
  overflowing \<^verbatim>\<open>INT_MIN / -1\<close>) they return the native quotient, truncated towards
  zero, and the native remainder. With the divisor zero neither is a contract
  violation: both run into the undefined native division.
\<close>

theorem integer_division_unguarded:
  "(sint b \<noteq> 0 \<and> \<not> (sint a = - (2 ^ 31) \<and> sint b = - 1) \<longrightarrow>
      operator_divide R (VInteger a) (VInteger b) tr =
        Some (Inr (VInteger (word_of_int (sint a sdiv sint b))), tr)
      \<and> operator_modulo R (VInteger a) (VInteger b) tr =
        Some (Inr (VInteger (word_of_int (sint a smod sint b))), tr))
   \<and> operator_divide R (VInteger a) (VInteger 0) tr = Some (Inl UndefinedBehaviour, tr)
   \<and> operator_modulo R (VInteger a) (VInteger 0) tr = Some (Inl UndefinedBehaviour, tr)"
proof (intro conjI impI)
  assume h: "sint b \<noteq> 0 \<and> \<not> (sint a = - (2 ^ 31) \<and> sint b = - 1)"
  have d: "- (2 ^ 31) \<le> sint a sdiv sint b \<and> sint a sdiv sint b \<le> 2 ^ 31 - 1"
    using sdiv_in_range [of "sint a" "sint b"] sint_range32 [of a] h by simp
  have m: "- (2 ^ 31) \<le> sint a smod sint b \<and> sint a smod sint b \<le> 2 ^ 31 - 1"
    using smod_in_range [of "sint b" "sint a"] sint_range32 [of b] h by simp
  from h d show "operator_divide R (VInteger a) (VInteger b) tr =
        Some (Inr (VInteger (word_of_int (sint a sdiv sint b))), tr)"
    by (simp add: operator_divide_def unthunk_both_def unthunkVariant_forced divide_switch_def
        assert_def member_i_def bind_result_def int_result_def)
  from h d m show "operator_modulo R (VInteger a) (VInteger b) tr =
        Some (Inr (VInteger (word_of_int (sint a smod sint b))), tr)"
    by (simp add: operator_modulo_def unthunk_both_def unthunkVariant_forced modulo_switch_def
        assert_def member_i_def bind_result_def int_result_def)
next
  show "operator_divide R (VInteger a) (VInteger 0) tr = Some (Inl UndefinedBehaviour, tr)"
    by (simp add: operator_divide_def unthunk_both_def unthunkVariant_forced divide_switch_def
        assert_def member_i_def bind_result_def)
  show "operator_modulo R (VInteger a) (VInteger 0) tr = Some (Inl UndefinedBehaviour, tr)"
    by (simp add: operator_modulo_def unthunk_both_def unthunkVariant_forced modulo_switch_def
        assert_def member_i_def bind_result_def)
qed

theorem integer_division_unguarded_witness:
  "sint (2 :: 32 word) \<noteq> 0 \<and> \<not> (sint (- 7 :: 32 word) = - (2 ^ 31) \<and> sint (2 :: 32 word) = - 1)
   \<and> operator_divide (example_runtime True) (VInteger (- 7)) (VInteger 2) [] =
       Some (Inr (VInteger (- 3)), [])
   \<and> operator_modulo (example_runtime True) (VInteger (- 7)) (VInteger 2) [] =
       Some (Inr (VInteger (- 1)), [])
   \<and> operator_divide (example_runtime True) (VInteger (- 7)) (VInteger 0) [] =
       Some (Inl UndefinedBehaviour, [])
   \<and> operator_modulo (example_runtime False) (VInteger (- 7)) (VInteger 0) [] =
       Some (Inl UndefinedBehaviour, [])"
proof -
  have h: "sint (2 :: 32 word) \<noteq> 0 \<and>
      \<not> (sint (- 7 :: 32 word) = - (2 ^ 31) \<and> sint (2 :: 32 word) = - 1)"
    by simp
  have q: "sint (- 7 :: 32 word) sdiv sint (2 :: 32 word) = - 3"
    by (simp add: signed_divide_int_def)
  have r: "sint (- 7 :: 32 word) smod sint (2 :: 32 word) = - 1"
    by (simp add: signed_modulo_int_def)
  from integer_division_unguarded [of 2 "- 7" "example_runtime True" "[]"]
    integer_division_unguarded [of 2 "- 7" "example_runtime False" "[]"] h
  show ?thesis by (simp add: q r)
qed

end
